theory Spec2Isabelle
  imports Main "HOL-Library.Word" "HOL-Library.Monad_Syntax"
begin

section \<open>JavaScript values\<close>

text \<open>
  A JavaScript number, as far as the adapter looks at one: it is either \<open>NaN\<close> or a
  value. The values are the integers here: every count of the wire protocol is one, and
  the adapter computes nothing on a number, it only tests its truthiness and passes it on.
\<close>

datatype number = NaN | Num int

text \<open>The values \<open>JSON.parse\<close> produces, and \<open>undefined\<close>: the body of a response, and
  the values of the options of a request. An object is the list of its own properties, each
  key once.\<close>

datatype js_value =
    JUndefined
  | JNull
  | JBoolean bool
  | JNumber number
  | JString string
  | JArray "js_value list"
  | JObject "(string \<times> js_value) list"

text \<open>\<open>ToBoolean\<close> on a number: \<open>NaN\<close> and zero are falsy.\<close>

fun truthy :: "number \<Rightarrow> bool" where
  "truthy NaN = False"
| "truthy (Num n) = (n \<noteq> 0)"

text \<open>\<open>a || b\<close> on an optional number (\<open>undefined\<close> is \<open>None\<close>).\<close>

fun or_else :: "number option \<Rightarrow> number \<Rightarrow> number" where
  "or_else None d = d"
| "or_else (Some n) d = (if truthy n then n else d)"

text \<open>\<open>Array.prototype.join\<close> on strings.\<close>

fun join :: "string \<Rightarrow> string list \<Rightarrow> string" where
  "join sep [] = []"
| "join sep [x] = x"
| "join sep (x # y # ys) = x @ sep @ join sep (y # ys)"

text \<open>Reading a property of an object: \<open>undefined\<close> when it is absent or when the value is
  not an object.\<close>

fun property :: "js_value \<Rightarrow> string \<Rightarrow> js_value" where
  "property (JObject kvs) k = (case map_of kvs k of None \<Rightarrow> JUndefined | Some v \<Rightarrow> v)"
| "property v k = JUndefined"

section \<open>Provider interface types\<close>

datatype LanguageModelV1FinishReason =
  Stop | Length | ContentFilter | ToolCalls | ErrorReason | Other | Unknown

record usage =
  completionTokens :: number
  promptTokens :: number

datatype parse_error = JSONParseError string | TypeValidationError string

datatype 'a ParseResult = Success 'a | Failure parse_error

datatype LanguageModelV1StreamPart =
    TextDelta string
  | ErrorPart parse_error
  | Finish LanguageModelV1FinishReason usage

text \<open>Modelled from the spec: \<open>mapOllamaFinishReason\<close> (module \<open>map-ollama-finish-reason\<close>) is
  not among the source files. The spec's finish-reason normalizer maps the service's
  \<open>stop\<close> signal to \<open>stop\<close> and every unrecognised value to \<open>other\<close>, and never fails.
\<close>

definition mapOllamaFinishReason :: "string \<Rightarrow> LanguageModelV1FinishReason" where
  "mapOllamaFinishReason r = (if r = ''stop'' then Stop else Other)"

section \<open>Response schemas\<close>

text \<open>The \<open>message\<close> object of a response record.\<close>

datatype response_message =
  ResponseMessage (message_content: string) (message_role: string)

text \<open>What \<open>ollamaChatChunkSchema\<close> infers. The field \<open>done\<close> has the literal type
  \<open>true\<close> and carries no information; \<open>response_model\<close> is the field \<open>model\<close>.\<close>

record ollamaChatChunk =
  created_at :: string
  eval_count :: number
  eval_duration :: number
  load_duration :: "number option"
  message :: response_message
  response_model :: string
  prompt_eval_count :: "number option"
  prompt_eval_duration :: "number option"
  total_duration :: number

text \<open>What \<open>ollamaChatStreamChunkSchema\<close> infers: a union discriminated by \<open>done\<close>.
  \<open>NotDone\<close> is \<open>done: false\<close> with \<open>created_at\<close>, \<open>message\<close>, \<open>model\<close>; \<open>IsDone\<close> is
  \<open>done: true\<close> with \<open>created_at\<close>, \<open>eval_count\<close>, \<open>eval_duration\<close>, \<open>load_duration\<close>,
  \<open>model\<close>, \<open>prompt_eval_count\<close>, \<open>prompt_eval_duration\<close>, \<open>total_duration\<close>.\<close>

datatype ollamaChatStreamChunk =
    NotDone string response_message string
  | IsDone string number number "number option" string "number option" "number option" number

text \<open>The schema combinators: \<open>None\<close> is a validation failure. \<open>z.number()\<close> rejects
  \<open>NaN\<close>; \<open>.optional()\<close> accepts \<open>undefined\<close>.\<close>

fun z_string :: "js_value \<Rightarrow> string option" where
  "z_string (JString s) = Some s"
| "z_string v = None"

fun z_number :: "js_value \<Rightarrow> number option" where
  "z_number (JNumber (Num n)) = Some (Num n)"
| "z_number v = None"

fun z_optional :: "(js_value \<Rightarrow> 'a option) \<Rightarrow> js_value \<Rightarrow> 'a option option" where
  "z_optional p JUndefined = Some None"
| "z_optional p v = map_option Some (p v)"

fun z_literal :: "bool \<Rightarrow> js_value \<Rightarrow> unit option" where
  "z_literal b v = (if v = JBoolean b then Some () else None)"

fun is_object :: "js_value \<Rightarrow> bool" where
  "is_object (JObject kvs) = True"
| "is_object v = False"

definition message_schema :: "js_value \<Rightarrow> response_message option" where
  "message_schema v =
     (if \<not> is_object v then None
      else do {
        c \<leftarrow> z_string (property v ''content'');
        r \<leftarrow> z_string (property v ''role'');
        Some (ResponseMessage c r)
      })"

definition ollamaChatChunkSchema :: "js_value \<Rightarrow> ollamaChatChunk option" where
  "ollamaChatChunkSchema v =
     (if \<not> is_object v then None
      else do {
        ca \<leftarrow> z_string (property v ''created_at'');
        _ \<leftarrow> z_literal True (property v ''done'');
        ec \<leftarrow> z_number (property v ''eval_count'');
        ed \<leftarrow> z_number (property v ''eval_duration'');
        ld \<leftarrow> z_optional z_number (property v ''load_duration'');
        m \<leftarrow> message_schema (property v ''message'');
        mo \<leftarrow> z_string (property v ''model'');
        pc \<leftarrow> z_optional z_number (property v ''prompt_eval_count'');
        pd \<leftarrow> z_optional z_number (property v ''prompt_eval_duration'');
        td \<leftarrow> z_number (property v ''total_duration'');
        Some \<lparr>created_at = ca, eval_count = ec, eval_duration = ed, load_duration = ld,
              message = m, response_model = mo, prompt_eval_count = pc, prompt_eval_duration = pd,
              total_duration = td\<rparr>
      })"

definition ollamaChatStreamChunkSchema :: "js_value \<Rightarrow> ollamaChatStreamChunk option" where
  "ollamaChatStreamChunkSchema v =
     (if \<not> is_object v then None
      else if property v ''done'' = JBoolean False then do {
        ca \<leftarrow> z_string (property v ''created_at'');
        m \<leftarrow> message_schema (property v ''message'');
        mo \<leftarrow> z_string (property v ''model'');
        Some (NotDone ca m mo)
      }
      else if property v ''done'' = JBoolean True then do {
        ca \<leftarrow> z_string (property v ''created_at'');
        ec \<leftarrow> z_number (property v ''eval_count'');
        ed \<leftarrow> z_number (property v ''eval_duration'');
        ld \<leftarrow> z_optional z_number (property v ''load_duration'');
        mo \<leftarrow> z_string (property v ''model'');
        pc \<leftarrow> z_optional z_number (property v ''prompt_eval_count'');
        pd \<leftarrow> z_optional z_number (property v ''prompt_eval_duration'');
        td \<leftarrow> z_number (property v ''total_duration'');
        Some (IsDone ca ec ed ld mo pc pd td)
      }
      else None)"

section \<open>The stream transform of doStream\<close>

text \<open>The two variables \<open>finishReason\<close> and \<open>usage\<close> that the transform closes over,
  and the values \<open>doStream\<close> gives them before the stream starts.\<close>

record closure =
  finishReason :: LanguageModelV1FinishReason
  usage :: usage

definition initial_closure :: closure where
  "initial_closure =
     \<lparr>finishReason = Other, usage = \<lparr>completionTokens = NaN, promptTokens = NaN\<rparr>\<rparr>"

text \<open>\<open>transform(chunk, controller)\<close>: the parts enqueued and the closure afterwards. The
  last test is the source's \<open>value.message.content !== null\<close>.\<close>

fun transform ::
  "ollamaChatStreamChunk ParseResult \<Rightarrow> closure \<Rightarrow> LanguageModelV1StreamPart list \<times> closure"
where
  "transform (Failure e) s = ([ErrorPart e], s)"
| "transform (Success (IsDone ca ec ed ld mo pc pd td)) s =
     ([], \<lparr>finishReason = mapOllamaFinishReason ''stop'',
           usage = \<lparr>completionTokens = ec, promptTokens = NaN\<rparr>\<rparr>)"
| "transform (Success (NotDone ca m mo)) s =
     (if JString (message_content m) \<noteq> JNull then [TextDelta (message_content m)] else [], s)"

text \<open>\<open>flush(controller)\<close>.\<close>

definition flush :: "closure \<Rightarrow> LanguageModelV1StreamPart list" where
  "flush s = [Finish (finishReason s) (usage s)]"

text \<open>\<open>response.pipeThrough(new TransformStream({flush, transform}))\<close> on a source stream
  that delivers the chunks and closes: \<open>transform\<close> runs on each chunk in turn, \<open>flush\<close>
  once after the last.\<close>

fun pipeThrough ::
  "ollamaChatStreamChunk ParseResult list \<Rightarrow> closure \<Rightarrow> LanguageModelV1StreamPart list"
where
  "pipeThrough [] s = flush s"
| "pipeThrough (chunk # rest) s =
     (case transform chunk s of (out, s') \<Rightarrow> out @ pipeThrough rest s')"

text \<open>The stream \<open>doStream\<close> returns for a response that delivers the given chunks.\<close>

definition doStream_stream ::
  "ollamaChatStreamChunk ParseResult list \<Rightarrow> LanguageModelV1StreamPart list" where
  "doStream_stream response = pipeThrough response initial_closure"

section \<open>The message mapper\<close>

text \<open>What the adapter throws: its own unsupported-functionality error, the API call error
  of the provider utilities, and the \<open>TypeError\<close> of the JavaScript engine.\<close>

datatype error =
    UnsupportedFunctionalityError string
  | APICallError string
  | TypeError

text \<open>The result of a tool and the arguments of a tool call have the type \<open>unknown\<close>: any
  value of the engine at all, here a type variable \<open>'v\<close>. What the mapper does with such a
  value is done by the engine, which is a parameter of the model: \<open>typeof v\<close>,
  \<open>JSON.stringify(v)\<close> and the template literal \<open>`${v}`\<close>. The last two return a string, as
  their declarations say, or throw (\<open>Inl\<close>): \<open>JSON.stringify\<close> throws a \<open>TypeError\<close> on a
  structure with a cycle or with a \<open>BigInt\<close> in it, the template literal on a \<open>Symbol\<close>.\<close>

record 'v js_engine =
  typeof :: "'v \<Rightarrow> string"
  JSON_stringify :: "'v \<Rightarrow> error + string"
  template_literal :: "'v \<Rightarrow> error + string"

text \<open>\<open>LanguageModelV1Prompt\<close>: the role of a message fixes the type of its content, so a
  message is one of four variants and the \<open>default\<close> branch of the mapper's switch on the
  role has no input of this type.\<close>

datatype image = Uint8Array "8 word list" | URL string

datatype user_part =
    TextPart string
  | ImagePart image "string option"

datatype 'v assistant_part =
    AssistantTextPart string
  | ToolCallPart string string 'v

record 'v tool_result_part =
  toolCallId :: string
  toolName :: string
  result :: 'v
  isError :: "bool option"

datatype 'v LanguageModelV1Message =
    SystemMessage string
  | UserMessage "user_part list"
  | AssistantMessage "'v assistant_part list"
  | ToolMessage "'v tool_result_part list"

datatype ollama_role = RoleSystem | RoleUser | RoleAssistant | RoleTool

text \<open>A message of \<open>OllamaChatPrompt\<close>; an optional field that is absent is \<open>None\<close>.\<close>

record OllamaChatMessage =
  content :: string
  images :: "string list option"
  role :: ollama_role
  tool_call_id :: "string option"

text \<open>\<open>convertUint8ArrayToBase64\<close> of the provider utilities: \<open>btoa\<close> on the bytes.\<close>

definition base64_alphabet :: string where
  "base64_alphabet = ''ABCDEFGHIJKLMNOPQRSTUVWXYZabcdefghijklmnopqrstuvwxyz0123456789+/''"

fun btoa :: "nat list \<Rightarrow> string" where
  "btoa [] = []"
| "btoa [a] =
     [base64_alphabet ! (a div 4), base64_alphabet ! ((a mod 4) * 16), CHR ''='', CHR ''='']"
| "btoa [a, b] =
     [base64_alphabet ! (a div 4), base64_alphabet ! ((a mod 4) * 16 + b div 16),
      base64_alphabet ! ((b mod 16) * 4), CHR ''='']"
| "btoa (a # b # c # rest) =
     [base64_alphabet ! (a div 4), base64_alphabet ! ((a mod 4) * 16 + b div 16),
      base64_alphabet ! ((b mod 16) * 4 + c div 64), base64_alphabet ! (c mod 64)] @ btoa rest"

definition convertUint8ArrayToBase64 :: "8 word list \<Rightarrow> string" where
  "convertUint8ArrayToBase64 array = btoa (map unat array)"

text \<open>Modelled from the spec: \<open>injectToolsSchemaIntoSystem\<close> (module
  \<open>generate-tool/inject-tools-schema-into-system\<close>) is not among the source files. The
  mapper calls it with the system text and no tool declarations, and the spec's
  tool-schema injector returns its input unchanged when no tools are declared.
\<close>

definition injectToolsSchemaIntoSystem :: "string \<Rightarrow> string" where
  "injectToolsSchemaIntoSystem system = system"

text \<open>\<open>Array.prototype.reduce\<close> with a callback that may throw.\<close>

fun reduce :: "('b \<Rightarrow> 'a \<Rightarrow> error + 'b) \<Rightarrow> 'a list \<Rightarrow> 'b \<Rightarrow> error + 'b" where
  "reduce f [] previous = Inr previous"
| "reduce f (current # rest) previous =
     (case f previous current of
        Inl e \<Rightarrow> Inl e
      | Inr next \<Rightarrow> reduce f rest next)"

text \<open>The callback of the \<open>user\<close> case. \<open>previous\<close> is the object \<open>{content, images?}\<close>,
  here the pair of the two fields.\<close>

fun user_callback ::
  "string \<times> string list option \<Rightarrow> user_part \<Rightarrow> error + string \<times> string list option"
where
  "user_callback (c, imgs) (TextPart t) = Inr (c @ t, imgs)"
| "user_callback (c, imgs) (ImagePart (URL u) mime) =
     Inl (UnsupportedFunctionalityError ''image-part'')"
| "user_callback (c, imgs) (ImagePart (Uint8Array bytes) mime) =
     Inr (c, Some ((case imgs of None \<Rightarrow> [] | Some xs \<Rightarrow> xs) @ [convertUint8ArrayToBase64 bytes]))"

text \<open>The callback of the \<open>assistant\<close> case: a part that is not text maps to
  \<open>undefined\<close>, which \<open>join\<close> writes as the empty string.\<close>

fun assistant_callback :: "'v assistant_part \<Rightarrow> string" where
  "assistant_callback (AssistantTextPart t) = t"
| "assistant_callback (ToolCallPart i n a) = []"

text \<open>\<open>Array.prototype.map\<close> with a callback that may throw: the first error ends it.\<close>

fun map_throwing :: "('a \<Rightarrow> error + 'b) \<Rightarrow> 'a list \<Rightarrow> error + 'b list" where
  "map_throwing f [] = Inr []"
| "map_throwing f (x # xs) =
     (case f x of
        Inl e \<Rightarrow> Inl e
      | Inr y \<Rightarrow>
          (case map_throwing f xs of
             Inl e \<Rightarrow> Inl e
           | Inr ys \<Rightarrow> Inr (y # ys)))"

text \<open>The callback of the \<open>tool\<close> case: it throws what the engine throws on the
  result.\<close>

definition tool_callback :: "'v js_engine \<Rightarrow> 'v tool_result_part \<Rightarrow> error + OllamaChatMessage" where
  "tool_callback js part =
     (case (if typeof js (result part) = ''object'' then JSON_stringify js (result part)
            else template_literal js (result part)) of
        Inl e \<Rightarrow> Inl e
      | Inr c \<Rightarrow>
          Inr \<lparr>content = c,
               images = None,
               role = RoleTool,
               tool_call_id = Some (toolCallId part)\<rparr>)"

text \<open>The loop over the prompt, with the array \<open>messages\<close> it pushes to.\<close>

fun convert_loop ::
  "'v js_engine \<Rightarrow> OllamaChatMessage list \<Rightarrow> 'v LanguageModelV1Message list
     \<Rightarrow> error + OllamaChatMessage list"
where
  "convert_loop js messages [] = Inr messages"
| "convert_loop js messages (SystemMessage c # rest) =
     convert_loop js
       (messages @ [\<lparr>content = injectToolsSchemaIntoSystem c, images = None,
                      role = RoleSystem, tool_call_id = None\<rparr>]) rest"
| "convert_loop js messages (UserMessage parts # rest) =
     (case reduce user_callback parts ([], None) of
        Inl e \<Rightarrow> Inl e
      | Inr (c, imgs) \<Rightarrow>
          convert_loop js
            (messages @ [\<lparr>content = c, images = imgs, role = RoleUser, tool_call_id = None\<rparr>])
            rest)"
| "convert_loop js messages (AssistantMessage parts # rest) =
     convert_loop js
       (messages @ [\<lparr>content = join [] (map assistant_callback parts), images = None,
                      role = RoleAssistant, tool_call_id = None\<rparr>]) rest"
| "convert_loop js messages (ToolMessage parts # rest) =
     (case map_throwing (tool_callback js) parts of
        Inl e \<Rightarrow> Inl e
      | Inr ms \<Rightarrow> convert_loop js (messages @ ms) rest)"

definition convertToOllamaChatMessages ::
  "'v js_engine \<Rightarrow> 'v LanguageModelV1Message list \<Rightarrow> error + OllamaChatMessage list" where
  "convertToOllamaChatMessages js prompt = convert_loop js [] prompt"

section \<open>The chat language model\<close>

text \<open>The generation mode; \<open>getArguments\<close> reads its \<open>type\<close> only. The payloads are the
  tools of the regular mode, the tool of \<open>object-tool\<close> and the schema of
  \<open>object-grammar\<close>.\<close>

datatype mode = Regular js_value | ObjectJson | ObjectTool js_value | ObjectGrammar js_value

text \<open>The call options \<open>getArguments\<close> takes apart. An option the caller leaves out is
  \<open>None\<close>.\<close>

record 'v call_options =
  frequencyPenalty :: "number option"
  maxTokens :: "number option"
  mode :: mode
  presencePenalty :: "number option"
  prompt :: "'v LanguageModelV1Message list"
  seed :: "number option"
  temperature :: "number option"
  topP :: "number option"

text \<open>The settings \<open>getArguments\<close> reads from \<open>OllamaChatSettings\<close>.\<close>

record OllamaChatSettings =
  mirostat :: "number option"
  mirostatEta :: "number option"
  mirostatTau :: "number option"
  numCtx :: "number option"
  repeatLastN :: "number option"
  repeatPenalty :: "number option"
  stop :: "string list option"
  tfsZ :: "number option"
  topK :: "number option"

text \<open>The configuration: \<open>headers\<close> is what the function \<open>config.headers()\<close>
  returns.\<close>

record OllamaChatConfig =
  baseURL :: string
  headers :: "(string \<times> string option) list"
  provider :: string

record OllamaChatLanguageModel =
  modelId :: string
  settings :: OllamaChatSettings
  config :: OllamaChatConfig

text \<open>The arguments of a call. \<open>options\<close> is the object literal of the source, a property
  whose value is \<open>undefined\<close> included; \<open>format\<close> is absent unless the mode sets it.
  The settings without the messages are what \<open>rawSettings\<close> echoes.\<close>

record raw_settings =
  model :: string
  options :: "(string \<times> js_value) list"
  format :: "string option"

record arguments = raw_settings +
  messages :: "OllamaChatMessage list"

fun number_value :: "number option \<Rightarrow> js_value" where
  "number_value None = JUndefined"
| "number_value (Some n) = JNumber n"

fun strings_value :: "string list option \<Rightarrow> js_value" where
  "strings_value None = JUndefined"
| "strings_value (Some xs) = JArray (map JString xs)"

datatype LanguageModelV1CallWarning = UnsupportedSetting string | OtherWarning string

definition getArguments ::
  "'v js_engine \<Rightarrow> OllamaChatLanguageModel \<Rightarrow> 'v call_options
     \<Rightarrow> error + arguments \<times> LanguageModelV1CallWarning list" where
  "getArguments js this opts =
     (let ty = mode opts; warnings = [] in
      case convertToOllamaChatMessages js (prompt opts) of
        Inl e \<Rightarrow> Inl e
      | Inr ms \<Rightarrow>
          (let baseArguments =
             \<lparr>model = modelId this,
              options =
                [(''frequency_penalty'', number_value (frequencyPenalty opts)),
                 (''mirostat'', number_value (mirostat (settings this))),
                 (''mirostat_eta'', number_value (mirostatEta (settings this))),
                 (''mirostat_tau'', number_value (mirostatTau (settings this))),
                 (''num_ctx'', number_value (numCtx (settings this))),
                 (''num_predict'', number_value (maxTokens opts)),
                 (''presence_penalty'', number_value (presencePenalty opts)),
                 (''repeat_last_n'', number_value (repeatLastN (settings this))),
                 (''repeat_penalty'', number_value (repeatPenalty (settings this))),
                 (''seed'', number_value (seed opts)),
                 (''stop'', strings_value (stop (settings this))),
                 (''temperature'', number_value (temperature opts)),
                 (''tfs_z'', number_value (tfsZ (settings this))),
                 (''top_k'', number_value (topK (settings this))),
                 (''top_p'', number_value (topP opts))],
              format = None,
              messages = ms\<rparr>
           in case ty of
                Regular tools \<Rightarrow> Inr (baseArguments, warnings)
              | ObjectJson \<Rightarrow> Inr (baseArguments\<lparr>format := Some ''json''\<rparr>, warnings)
              | ObjectTool tool \<Rightarrow> Inl (UnsupportedFunctionalityError ''object-tool mode'')
              | ObjectGrammar sch \<Rightarrow> Inl (UnsupportedFunctionalityError ''object-grammar mode'')))"

text \<open>A request as \<open>postJsonToApi\<close> dispatches it. \<open>stream_flag\<close> is the property
  \<open>stream\<close> of the body, \<open>None\<close> when the body has none.\<close>

record request =
  url :: string
  request_headers :: "(string \<times> string option) list"
  body :: arguments
  stream_flag :: "bool option"

text \<open>\<open>postJsonToApi\<close>: the network exchange is the parameter \<open>fetch\<close>, which fails (no
  connection, or a response that the failed-response handler turns into an error) or
  delivers the response headers and the body; the successful-response handler then
  decodes the body.\<close>

definition postJsonToApi ::
  "(request \<Rightarrow> error + (string \<times> string) list \<times> 'raw) \<Rightarrow> ('raw \<Rightarrow> error + 'v) \<Rightarrow> request
     \<Rightarrow> error + (string \<times> string) list \<times> 'v" where
  "postJsonToApi fetch successfulResponseHandler req =
     (case fetch req of
        Inl e \<Rightarrow> Inl e
      | Inr (responseHeaders, raw) \<Rightarrow>
          (case successfulResponseHandler raw of
             Inl e \<Rightarrow> Inl e
           | Inr v \<Rightarrow> Inr (responseHeaders, v)))"

text \<open>\<open>createJsonResponseHandler(schema)\<close> of the provider utilities: a body that the
  schema rejects is an API call error.\<close>

definition createJsonResponseHandler ::
  "(js_value \<Rightarrow> 'v option) \<Rightarrow> js_value \<Rightarrow> error + 'v" where
  "createJsonResponseHandler schema raw =
     (case schema raw of
        None \<Rightarrow> Inl (APICallError ''Invalid JSON response'')
      | Some v \<Rightarrow> Inr v)"

record raw_call =
  rawPrompt :: "OllamaChatMessage list"
  rawSettings :: raw_settings

record call_result =
  rawCall :: raw_call
  rawResponse :: "(string \<times> string) list"
  warnings :: "LanguageModelV1CallWarning list"

text \<open>\<open>result_finishReason\<close>, \<open>result_text\<close> and \<open>result_usage\<close> are the fields
  \<open>finishReason\<close>, \<open>text\<close> and \<open>usage\<close> of what \<open>doGenerate\<close> returns.\<close>

record generate_result = call_result +
  result_finishReason :: LanguageModelV1FinishReason
  result_text :: string
  result_usage :: usage

record stream_result = call_result +
  stream :: "LanguageModelV1StreamPart list"

text \<open>\<open>doGenerate\<close> and \<open>doStream\<close> return their result, or the error they throw, together
  with the list of the requests they dispatched. Their first argument is the engine.\<close>

definition doGenerate ::
  "'v js_engine \<Rightarrow> OllamaChatLanguageModel
     \<Rightarrow> (request \<Rightarrow> error + (string \<times> string) list \<times> js_value)
     \<Rightarrow> 'v call_options \<Rightarrow> (error + generate_result) \<times> request list" where
  "doGenerate js this fetch opts =
     (case getArguments js this opts of
        Inl e \<Rightarrow> (Inl e, [])
      | Inr (args, warns) \<Rightarrow>
          (let req = \<lparr>url = baseURL (config this) @ ''/chat'',
                      request_headers = headers (config this),
                      body = args, stream_flag = Some False\<rparr>
           in case postJsonToApi fetch (createJsonResponseHandler ollamaChatChunkSchema) req of
                Inl e \<Rightarrow> (Inl e, [req])
              | Inr (responseHeaders, response) \<Rightarrow>
                  (Inr \<lparr>rawCall = \<lparr>rawPrompt = messages args,
                                    rawSettings = raw_settings.truncate args\<rparr>,
                        rawResponse = responseHeaders,
                        warnings = warns,
                        result_finishReason = Stop,
                        result_text = message_content (message response),
                        result_usage =
                          \<lparr>completionTokens = NaN,
                           promptTokens = or_else (prompt_eval_count response) NaN\<rparr>\<rparr>,
                   [req])))"

text \<open>In \<open>doStream\<close> the successful-response handler is
  \<open>createJsonStreamResponseHandler(ollamaChatStreamChunkSchema)\<close>, whose module is not among
  the source files: the body \<open>fetch\<close> delivers is the list of the parse results that the
  handler's stream yields before it closes.\<close>

definition doStream ::
  "'v js_engine \<Rightarrow> OllamaChatLanguageModel
     \<Rightarrow> (request \<Rightarrow> error + (string \<times> string) list \<times> ollamaChatStreamChunk ParseResult list)
     \<Rightarrow> 'v call_options \<Rightarrow> (error + stream_result) \<times> request list" where
  "doStream js this fetch opts =
     (case getArguments js this opts of
        Inl e \<Rightarrow> (Inl e, [])
      | Inr (args, warns) \<Rightarrow>
          (let req = \<lparr>url = baseURL (config this) @ ''/chat'',
                      request_headers = headers (config this),
                      body = args, stream_flag = None\<rparr>
           in case postJsonToApi fetch Inr req of
                Inl e \<Rightarrow> (Inl e, [req])
              | Inr (responseHeaders, response) \<Rightarrow>
                  (Inr \<lparr>rawCall = \<lparr>rawPrompt = messages args,
                                    rawSettings = raw_settings.truncate args\<rparr>,
                        rawResponse = responseHeaders,
                        warnings = warns,
                        stream = doStream_stream response\<rparr>,
                   [req])))"

section \<open>Notions of the specification\<close>

text \<open>The words of the specification about the event stream: a finish event, a terminal
  record (a decoded record with \<open>done = true\<close>), and the event that belongs to a chunk:
  an error event for a decode failure, a text delta carrying the fragment for a
  non-terminal record, none for the terminal record.\<close>

fun is_finish :: "LanguageModelV1StreamPart \<Rightarrow> bool" where
  "is_finish (Finish r u) = True"
| "is_finish p = False"

fun is_terminal :: "ollamaChatStreamChunk ParseResult \<Rightarrow> bool" where
  "is_terminal (Success (IsDone ca ec ed ld mo pc pd td)) = True"
| "is_terminal c = False"

fun chunk_part :: "ollamaChatStreamChunk ParseResult \<Rightarrow> LanguageModelV1StreamPart option" where
  "chunk_part (Failure e) = Some (ErrorPart e)"
| "chunk_part (Success (NotDone ca m mo)) = Some (TextDelta (message_content m))"
| "chunk_part (Success (IsDone ca ec ed ld mo pc pd td)) = None"

text \<open>The closure variables after \<open>transform\<close> has run on each chunk of a list.\<close>

fun closure_after :: "ollamaChatStreamChunk ParseResult list \<Rightarrow> closure \<Rightarrow> closure" where
  "closure_after [] s = s"
| "closure_after (chunk # rest) s = closure_after rest (snd (transform chunk s))"

text \<open>The words of the specification about the parts of a user message: an image part given
  by a URL, an image part, the text a part contributes to the content, and the base64
  encoding a binary image part contributes to the images.\<close>

fun is_url_image :: "user_part \<Rightarrow> bool" where
  "is_url_image (ImagePart (URL u) mime) = True"
| "is_url_image p = False"

fun is_image :: "user_part \<Rightarrow> bool" where
  "is_image (ImagePart i mime) = True"
| "is_image p = False"

fun text_of :: "user_part \<Rightarrow> string" where
  "text_of (TextPart t) = t"
| "text_of p = []"

fun base64_of :: "user_part \<Rightarrow> string option" where
  "base64_of (ImagePart (Uint8Array bytes) mime) = Some (convertUint8ArrayToBase64 bytes)"
| "base64_of p = None"


section \<open>Fixtures\<close>

text \<open>Five values of the engine, and what the engine does with each:
  \<open>WeatherObject\<close> is the object \<open>{temp: 21}\<close>, \<open>FortyTwo\<close> the number \<open>42\<close>,
  \<open>SunnyString\<close> the string \<open>sunny\<close>, \<open>CyclicObject\<close> an object with a property that
  refers to the object itself, \<open>BigIntObject\<close> the object \<open>{n: 10n}\<close>. \<open>JSON.stringify\<close>
  throws a \<open>TypeError\<close> on the last two; the template literal writes an object as
  \<open>[object Object]\<close>.\<close>

datatype test_value = WeatherObject | FortyTwo | SunnyString | CyclicObject | BigIntObject

fun test_typeof :: "test_value \<Rightarrow> string" where
  "test_typeof WeatherObject = ''object''"
| "test_typeof FortyTwo = ''number''"
| "test_typeof SunnyString = ''string''"
| "test_typeof CyclicObject = ''object''"
| "test_typeof BigIntObject = ''object''"

fun test_JSON_stringify :: "test_value \<Rightarrow> error + string" where
  "test_JSON_stringify WeatherObject = Inr (CHR ''{'' # CHR 0x22 # ''temp'' @ CHR 0x22 # '':21}'')"
| "test_JSON_stringify FortyTwo = Inr ''42''"
| "test_JSON_stringify SunnyString = Inr (CHR 0x22 # ''sunny'' @ [CHR 0x22])"
| "test_JSON_stringify CyclicObject = Inl TypeError"
| "test_JSON_stringify BigIntObject = Inl TypeError"

fun test_template_literal :: "test_value \<Rightarrow> error + string" where
  "test_template_literal WeatherObject = Inr ''[object Object]''"
| "test_template_literal FortyTwo = Inr ''42''"
| "test_template_literal SunnyString = Inr ''sunny''"
| "test_template_literal CyclicObject = Inr ''[object Object]''"
| "test_template_literal BigIntObject = Inr ''[object Object]''"

definition test_engine :: "test_value js_engine" where
  "test_engine =
     \<lparr>typeof = test_typeof, JSON_stringify = test_JSON_stringify,
      template_literal = test_template_literal\<rparr>"

text \<open>The fixtures of the repository's tests: the prompt, the model \<open>provider.chat('llama3')\<close>
  with no settings, call options that set the mode and the prompt only, a server that
  answers every request with one JSON body, and one that answers with a list of stream
  chunks. \<open>prepareJsonResponse\<close> is the body the tests of \<open>doGenerate\<close> prepare;
  \<open>chat_response\<close> is a body in the shape \<open>ollamaChatChunkSchema\<close> accepts.\<close>

definition TEST_PROMPT :: "test_value LanguageModelV1Message list" where
  "TEST_PROMPT = [UserMessage [TextPart ''Hello'']]"

definition test_model :: OllamaChatLanguageModel where
  "test_model =
     \<lparr>modelId = ''llama3'',
      settings = \<lparr>mirostat = None, mirostatEta = None, mirostatTau = None, numCtx = None,
                  repeatLastN = None, repeatPenalty = None, stop = None, tfsZ = None,
                  topK = None\<rparr>,
      config = \<lparr>baseURL = ''http://127.0.0.1:11434/api'', headers = [],
                provider = ''ollama.chat''\<rparr>\<rparr>"

definition test_options ::
  "mode \<Rightarrow> test_value LanguageModelV1Message list \<Rightarrow> test_value call_options" where
  "test_options m p =
     \<lparr>frequencyPenalty = None, maxTokens = None, mode = m, presencePenalty = None,
      prompt = p, seed = None, temperature = None, topP = None\<rparr>"

definition JsonTestServer ::
  "js_value \<Rightarrow> request \<Rightarrow> error + (string \<times> string) list \<times> js_value" where
  "JsonTestServer responseBodyJson req =
     Inr ([(''content-type'', ''application/json'')], responseBodyJson)"

definition StreamingTestServer ::
  "ollamaChatStreamChunk ParseResult list \<Rightarrow> request
     \<Rightarrow> error + (string \<times> string) list \<times> ollamaChatStreamChunk ParseResult list" where
  "StreamingTestServer responseChunks req =
     Inr ([(''content-type'', ''text/event-stream'')], responseChunks)"

definition prepareJsonResponse :: "string \<Rightarrow> int \<Rightarrow> int \<Rightarrow> js_value" where
  "prepareJsonResponse c eval_n prompt_eval_n =
     JObject
       [(''context'', JArray [JNumber (Num 1), JNumber (Num 2), JNumber (Num 3)]),
        (''created_at'', JString ''2023-08-04T19:22:45.499127Z''),
        (''done'', JBoolean True),
        (''eval_count'', JNumber (Num eval_n)),
        (''eval_duration'', JNumber (Num 4709213000)),
        (''load_duration'', JNumber (Num 5025959)),
        (''model'', JString ''llama3''),
        (''prompt_eval_count'', JNumber (Num prompt_eval_n)),
        (''prompt_eval_duration'', JNumber (Num 325953000)),
        (''response'', JString c),
        (''total_duration'', JNumber (Num 5043500667))]"

definition chat_response :: "string \<Rightarrow> int \<Rightarrow> int \<Rightarrow> js_value" where
  "chat_response c eval_n prompt_eval_n =
     JObject
       [(''created_at'', JString ''2024-05-04T01:59:32.137913Z''),
        (''done'', JBoolean True),
        (''eval_count'', JNumber (Num eval_n)),
        (''eval_duration'', JNumber (Num 60669000)),
        (''load_duration'', JNumber (Num 5921416)),
        (''message'', JObject [(''role'', JString ''assistant''), (''content'', JString c)]),
        (''model'', JString ''llama3''),
        (''prompt_eval_count'', JNumber (Num prompt_eval_n)),
        (''prompt_eval_duration'', JNumber (Num 1750224000)),
        (''total_duration'', JNumber (Num 1820013000))]"

text \<open>A stream line as the tests write one, with an empty fragment, and the record the
  schema decodes from it.\<close>

definition empty_delta_line :: js_value where
  "empty_delta_line =
     JObject [(''model'', JString ''llama3''),
              (''created_at'', JString ''2024-05-04T01:59:32.077465Z''),
              (''message'', JObject [(''role'', JString ''assistant''), (''content'', JString [])]),
              (''done'', JBoolean False)]"

text \<open>The stream chunks the tests prepare: a fragment, and the terminal record with its
  counts.\<close>

definition delta :: "string \<Rightarrow> ollamaChatStreamChunk ParseResult" where
  "delta c =
     Success (NotDone ''2024-05-04T01:59:32.077465Z'' (ResponseMessage c ''assistant'') ''llama3'')"

definition final :: "int \<Rightarrow> int \<Rightarrow> ollamaChatStreamChunk ParseResult" where
  "final eval_n prompt_eval_n =
     Success (IsDone ''2024-05-04T01:59:32.137913Z'' (Num eval_n) (Num 60669000)
                (Some (Num 5921416)) ''llama3'' (Some (Num prompt_eval_n))
                (Some (Num 1750224000)) (Num 1820013000))"

text \<open>A prompt whose user message has an image part given by a URL, and the same prompt
  after a tool message whose result is the cyclic object.\<close>

definition url_image_prompt :: "test_value LanguageModelV1Message list" where
  "url_image_prompt =
     [UserMessage [TextPart ''Describe this'',
                   ImagePart (URL ''https://example.com/image.png'') (Some ''image/png'')]]"

definition cyclic_tool_message :: "test_value LanguageModelV1Message" where
  "cyclic_tool_message =
     ToolMessage [\<lparr>toolCallId = ''call-1'', toolName = ''weather'', result = CyclicObject,
                    isError = None\<rparr>]"

section \<open>The stream transform of doStream: properties\<close>

text \<open>What \<open>transform\<close> enqueues for a chunk does not depend on the closure, and the stream is
  the events of the chunks followed by what \<open>flush\<close> enqueues.\<close>

lemma transform_parts:
  "fst (transform chunk s) = (case chunk_part chunk of None \<Rightarrow> [] | Some p \<Rightarrow> [p])"
  by (cases "(chunk, s)" rule: transform.cases) auto

lemma pipeThrough_parts:
  "pipeThrough chunks s = List.map_filter chunk_part chunks @ flush (closure_after chunks s)"
proof (induction chunks arbitrary: s)
  case Nil
  show ?case by (simp add: List.map_filter_simps)
next
  case (Cons chunk rest)
  obtain out s' where t: "transform chunk s = (out, s')" by (cases "transform chunk s")
  have "out = (case chunk_part chunk of None \<Rightarrow> [] | Some p \<Rightarrow> [p])"
    using transform_parts [of chunk s] t by simp
  then show ?case using t Cons.IH [of s']
    by (simp add: List.map_filter_simps split: option.splits)
qed

lemma chunk_part_not_finish: "chunk_part c = Some p \<Longrightarrow> \<not> is_finish p"
  by (cases c rule: chunk_part.cases) auto

lemma map_filter_no_finish: "filter is_finish (List.map_filter chunk_part chunks) = []"
  by (induction chunks) (auto simp: List.map_filter_simps chunk_part_not_finish split: option.splits)

lemma closure_after_append:
  "closure_after (xs @ ys) s = closure_after ys (closure_after xs s)"
  by (induction xs arbitrary: s) auto

lemma closure_after_no_terminal:
  "\<forall>c \<in> set chunks. \<not> is_terminal c \<Longrightarrow> closure_after chunks s = s"
proof (induction chunks arbitrary: s)
  case Nil
  show ?case by simp
next
  case (Cons c cs)
  have "\<not> is_terminal c" using Cons.prems by simp
  then have "snd (transform c s) = s"
    by (cases "(c, s)" rule: transform.cases) auto
  then show ?case using Cons by simp
qed

lemma map_filter_append:
  "List.map_filter f (xs @ ys) = List.map_filter f xs @ List.map_filter f ys"
  by (simp add: List.map_filter_def)

lemma stream_parts:
  "doStream_stream chunks =
     List.map_filter chunk_part chunks
     @ [Finish (finishReason (closure_after chunks initial_closure))
               (usage (closure_after chunks initial_closure))]"
  by (simp add: doStream_stream_def pipeThrough_parts flush_def)

text \<open>What \<open>doStream\<close> returns once its request has been answered with a list of chunks:
  the stream of the transform over these chunks.\<close>

lemma doStream_dispatched:
  assumes "snd (doStream js this fetch opts) = [req]"
    and "fetch req = Inr (responseHeaders, response)"
  shows "\<exists>r. fst (doStream js this fetch opts) = Inr r \<and> stream r = doStream_stream response"
proof (cases "getArguments js this opts")
  case (Inl e)
  then show ?thesis using assms(1) by (simp add: doStream_def)
next
  case (Inr p)
  obtain args warns where p: "p = (args, warns)" by (cases p)
  let ?req = "\<lparr>url = baseURL (config this) @ ''/chat'',
                      request_headers = headers (config this),
                      body = args, stream_flag = None\<rparr>"
  have "snd (doStream js this fetch opts) = [?req]"
    using Inr p by (simp add: doStream_def Let_def split: sum.splits prod.splits)
  then have r: "req = ?req" using assms(1) by simp
  have f: "fetch ?req = Inr (responseHeaders, response)" using assms(2) r by simp
  show ?thesis
    using Inr p f by (simp add: doStream_def Let_def postJsonToApi_def)
qed

text \<open>C1. Whenever \<open>doStream\<close> has dispatched its request and the response delivers a sequence
  of chunks (the empty one and those without a terminal record included), \<open>doStream\<close>
  returns a stream that holds exactly one finish event, and it is the last event; the
  events before it are the text deltas and errors of the chunks in arrival order; and when
  no terminal record was seen the finish event carries the finish reason \<open>other\<close> and the
  usage \<open>{completionTokens: NaN, promptTokens: NaN}\<close>.\<close>

theorem doStream_one_finish_last:
  assumes "snd (doStream js this fetch opts) = [req]"
    and "fetch req = Inr (responseHeaders, chunks)"
  shows "\<exists>r. fst (doStream js this fetch opts) = Inr r
     \<and> length (filter is_finish (stream r)) = 1
     \<and> stream r \<noteq> []
     \<and> is_finish (last (stream r))
     \<and> butlast (stream r) = List.map_filter chunk_part chunks
     \<and> ((\<forall>c \<in> set chunks. \<not> is_terminal c) \<longrightarrow>
          last (stream r) = Finish Other \<lparr>completionTokens = NaN, promptTokens = NaN\<rparr>)"
proof -
  obtain r where r: "fst (doStream js this fetch opts) = Inr r"
    and s: "stream r = doStream_stream chunks"
    using doStream_dispatched [OF assms] by blast
  have eq: "stream r = List.map_filter chunk_part chunks
     @ [Finish (finishReason (closure_after chunks initial_closure))
               (usage (closure_after chunks initial_closure))]"
    by (simp add: s stream_parts)
  have 1: "length (filter is_finish (stream r)) = 1"
    by (simp add: eq map_filter_no_finish)
  have 2: "(\<forall>c \<in> set chunks. \<not> is_terminal c) \<longrightarrow>
        last (stream r) = Finish Other \<lparr>completionTokens = NaN, promptTokens = NaN\<rparr>"
    by (simp add: eq closure_after_no_terminal initial_closure_def)
  have 3: "stream r \<noteq> [] \<and> is_finish (last (stream r))
     \<and> butlast (stream r) = List.map_filter chunk_part chunks"
    by (simp add: eq)
  show ?thesis using r 1 2 3 by blast
qed

text \<open>C2. When the response that \<open>doStream\<close> receives holds a decoded terminal record with
  \<open>eval_count = e\<close>, the stream \<open>doStream\<close> returns has no event for that record (the events
  before the finish event are those of the chunks before and after it), and its finish
  event carries \<open>stop\<close> and the usage \<open>{completionTokens: e, promptTokens: NaN}\<close>, whatever
  \<open>prompt_eval_count\<close> the record has. The finish event is read off when no further
  terminal record follows. \<open>transform\<close> on the record enqueues nothing and sets the
  closure to these values.\<close>

theorem doStream_terminal_record:
  assumes "snd (doStream js this fetch opts) = [req]"
    and "fetch req = Inr (responseHeaders, pre @ Success (IsDone ca e ed ld mo pc pd td) # post)"
  shows "\<exists>r. fst (doStream js this fetch opts) = Inr r
     \<and> butlast (stream r) = List.map_filter chunk_part pre @ List.map_filter chunk_part post
     \<and> ((\<forall>c \<in> set post. \<not> is_terminal c) \<longrightarrow>
          last (stream r) = Finish Stop \<lparr>completionTokens = e, promptTokens = NaN\<rparr>)
     \<and> transform (Success (IsDone ca e ed ld mo pc pd td)) s =
          ([], \<lparr>finishReason = Stop, usage = \<lparr>completionTokens = e, promptTokens = NaN\<rparr>\<rparr>)"
proof -
  let ?t = "Success (IsDone ca e ed ld mo pc pd td)"
  obtain r where r: "fst (doStream js this fetch opts) = Inr r"
    and st: "stream r = doStream_stream (pre @ ?t # post)"
    using doStream_dispatched [OF assms] by blast
  have a: "transform ?t s =
      ([], \<lparr>finishReason = Stop, usage = \<lparr>completionTokens = e, promptTokens = NaN\<rparr>\<rparr>)"
    by (simp add: mapOllamaFinishReason_def)
  have b: "butlast (stream r) = List.map_filter chunk_part pre @ List.map_filter chunk_part post"
    by (simp add: st stream_parts map_filter_append List.map_filter_simps butlast_append)
  have c: "(\<forall>c \<in> set post. \<not> is_terminal c) \<longrightarrow>
        last (stream r) = Finish Stop \<lparr>completionTokens = e, promptTokens = NaN\<rparr>"
    by (simp add: st stream_parts closure_after_append closure_after_no_terminal
          mapOllamaFinishReason_def)
  show ?thesis using r a b c by blast
qed

text \<open>C3. When the response that \<open>doStream\<close> receives holds a decode failure, the stream
  \<open>doStream\<close> returns is the stream it returns for the same chunks without the failure,
  with one error event carrying the chunk's error inserted after the events of the
  chunks before it: the later chunks are processed as they would have been, and the
  finish event is the same. \<open>transform\<close> on the failure enqueues the error event and leaves
  the closure as it is.\<close>

theorem doStream_decode_failure:
  assumes "snd (doStream js this fetch opts) = [req]"
    and "fetch req = Inr (responseHeaders, pre @ Failure err # post)"
    and "snd (doStream js this fetch' opts) = [req']"
    and "fetch' req' = Inr (responseHeaders', pre @ post)"
  shows "\<exists>r r'. fst (doStream js this fetch opts) = Inr r
     \<and> fst (doStream js this fetch' opts) = Inr r'
     \<and> stream r =
         take (length (List.map_filter chunk_part pre)) (stream r')
         @ [ErrorPart err]
         @ drop (length (List.map_filter chunk_part pre)) (stream r')
     \<and> last (stream r) = last (stream r')
     \<and> is_finish (last (stream r))
     \<and> transform (Failure err) s = ([ErrorPart err], s)"
proof -
  obtain r where r: "fst (doStream js this fetch opts) = Inr r"
    and st: "stream r = doStream_stream (pre @ Failure err # post)"
    using doStream_dispatched [OF assms(1,2)] by blast
  obtain r' where r': "fst (doStream js this fetch' opts) = Inr r'"
    and st': "stream r' = doStream_stream (pre @ post)"
    using doStream_dispatched [OF assms(3,4)] by blast
  let ?fin = "Finish (finishReason (closure_after (pre @ post) initial_closure))
                     (usage (closure_after (pre @ post) initial_closure))"
  have c: "closure_after (pre @ Failure err # post) initial_closure =
      closure_after (pre @ post) initial_closure"
    by (simp add: closure_after_append)
  have e: "stream r =
      List.map_filter chunk_part pre @ [ErrorPart err] @ List.map_filter chunk_part post @ [?fin]"
    by (simp add: st stream_parts map_filter_append List.map_filter_simps c)
  have e': "stream r' =
      List.map_filter chunk_part pre @ List.map_filter chunk_part post @ [?fin]"
    by (simp add: st' stream_parts map_filter_append)
  have 1: "stream r =
         take (length (List.map_filter chunk_part pre)) (stream r')
         @ [ErrorPart err]
         @ drop (length (List.map_filter chunk_part pre)) (stream r')"
    by (simp add: e e')
  have 2: "last (stream r) = last (stream r')" "is_finish (last (stream r))"
    by (simp_all add: e e')
  have 3: "transform (Failure err) s = ([ErrorPart err], s)" by simp
  show ?thesis using r r' 1 2 3 by blast
qed

lemma z_string_Some: "z_string v = Some s \<Longrightarrow> v = JString s"
  by (cases v) auto

lemma message_schema_content:
  "message_schema v = Some m \<Longrightarrow> property v ''content'' = JString (message_content m)"
  by (auto simp: message_schema_def z_string_Some split: if_splits Option.bind_splits)

text \<open>C10. When the response that \<open>doStream\<close> receives holds a decoded non-terminal record,
  the stream \<open>doStream\<close> returns has, between the events of the chunks before it and those
  of the chunks after it, exactly one text delta that carries the content of the record's
  message, the empty content too (\<open>transform\<close> enqueues it and leaves the closure as it
  is). The record that \<open>ollamaChatStreamChunkSchema\<close> decodes from a JSON value has as
  content the string found at \<open>message.content\<close> of that value, so that the test against
  \<open>null\<close> filters nothing.\<close>

theorem doStream_text_delta:
  assumes "snd (doStream js this fetch opts) = [req]"
    and "fetch req = Inr (responseHeaders, pre @ Success (NotDone ca m mo) # post)"
  shows "\<exists>r. fst (doStream js this fetch opts) = Inr r
     \<and> butlast (stream r) =
         List.map_filter chunk_part pre @ [TextDelta (message_content m)]
         @ List.map_filter chunk_part post
     \<and> transform (Success (NotDone ca m mo)) s = ([TextDelta (message_content m)], s)
     \<and> (ollamaChatStreamChunkSchema v = Some (NotDone ca m mo) \<longrightarrow>
          property (property v ''message'') ''content'' = JString (message_content m))"
proof -
  obtain r where r: "fst (doStream js this fetch opts) = Inr r"
    and st: "stream r = doStream_stream (pre @ Success (NotDone ca m mo) # post)"
    using doStream_dispatched [OF assms] by blast
  have a: "butlast (stream r) =
         List.map_filter chunk_part pre @ [TextDelta (message_content m)]
         @ List.map_filter chunk_part post"
    by (simp add: st stream_parts map_filter_append List.map_filter_simps butlast_append)
  have b: "transform (Success (NotDone ca m mo)) s = ([TextDelta (message_content m)], s)"
    by simp
  have c: "ollamaChatStreamChunkSchema v = Some (NotDone ca m mo) \<longrightarrow>
          property (property v ''message'') ''content'' = JString (message_content m)"
  proof
    assume "ollamaChatStreamChunkSchema v = Some (NotDone ca m mo)"
    then have "message_schema (property v ''message'') = Some m"
      by (auto simp: ollamaChatStreamChunkSchema_def split: if_splits Option.bind_splits)
    then show "property (property v ''message'') ''content'' = JString (message_content m)"
      by (rule message_schema_content)
  qed
  show ?thesis using r a b c by blast
qed

section \<open>The message mapper: properties\<close>

text \<open>The reduce over the parts of a user message fails only with the error for an image
  part given by a URL, and it fails as soon as there is one.\<close>

lemma reduce_user_error:
  "reduce user_callback parts acc = Inl e \<Longrightarrow> e = UnsupportedFunctionalityError ''image-part''"
proof (induction parts arbitrary: acc)
  case Nil
  then show ?case by simp
next
  case (Cons p ps)
  obtain c imgs where acc: "acc = (c, imgs)" by (cases acc)
  show ?case
  proof (cases "user_callback acc p")
    case (Inl e')
    then have "e' = UnsupportedFunctionalityError ''image-part''"
      unfolding acc by (cases "((c, imgs), p)" rule: user_callback.cases) auto
    with Inl Cons.prems show ?thesis by simp
  next
    case (Inr nxt)
    with Cons show ?thesis by simp
  qed
qed

lemma reduce_user_url:
  "ImagePart (URL u) mime \<in> set parts \<Longrightarrow>
     reduce user_callback parts acc = Inl (UnsupportedFunctionalityError ''image-part'')"
proof (induction parts arbitrary: acc)
  case Nil
  then show ?case by simp
next
  case (Cons p ps)
  obtain c imgs where acc: "acc = (c, imgs)" by (cases acc)
  show ?case
  proof (cases "p = ImagePart (URL u) mime")
    case True
    then show ?thesis by (simp add: acc)
  next
    case False
    then have mem: "ImagePart (URL u) mime \<in> set ps" using Cons.prems by simp
    show ?thesis
    proof (cases "user_callback acc p")
      case (Inl e')
      then have "e' = UnsupportedFunctionalityError ''image-part''"
        unfolding acc by (cases "((c, imgs), p)" rule: user_callback.cases) auto
      with Inl show ?thesis by simp
    next
      case (Inr nxt)
      then show ?thesis using Cons.IH [OF mem, of nxt] by simp
    qed
  qed
qed

text \<open>The loop on a list of messages appends to the array what it produces on the list alone,
  and it runs through a concatenation one part after the other.\<close>

lemma convert_loop_prefix:
  "convert_loop js ms prm =
     (case convert_loop js [] prm of Inl e \<Rightarrow> Inl e | Inr out \<Rightarrow> Inr (ms @ out))"
proof (induction prm arbitrary: ms)
  case Nil
  show ?case by simp
next
  case (Cons m rest)
  note IH = Cons.IH
  show ?case
  proof (cases m)
    case (SystemMessage c)
    let ?m = "\<lparr>content = injectToolsSchemaIntoSystem c, images = None,
               role = RoleSystem, tool_call_id = None\<rparr>"
    show ?thesis using IH [of "ms @ [?m]"] IH [of "[?m]"]
      by (simp add: SystemMessage split: sum.splits)
  next
    case (UserMessage parts)
    show ?thesis
    proof (cases "reduce user_callback parts ([], None)")
      case (Inl e)
      then show ?thesis by (simp add: UserMessage)
    next
      case (Inr acc)
      obtain c imgs where acc: "acc = (c, imgs)" by (cases acc)
      let ?m = "\<lparr>content = c, images = imgs, role = RoleUser, tool_call_id = None\<rparr>"
      show ?thesis
        using IH [of "ms @ [?m]"] IH [of "[?m]"] Inr acc
        by (simp add: UserMessage split: sum.splits)
    qed
  next
    case (AssistantMessage parts)
    let ?m = "\<lparr>content = join [] (map assistant_callback parts), images = None,
               role = RoleAssistant, tool_call_id = None\<rparr>"
    show ?thesis using IH [of "ms @ [?m]"] IH [of "[?m]"]
      by (simp add: AssistantMessage split: sum.splits)
  next
    case (ToolMessage parts)
    show ?thesis
    proof (cases "map_throwing (tool_callback js) parts")
      case (Inl e)
      then show ?thesis by (simp add: ToolMessage)
    next
      case (Inr out)
      show ?thesis using IH [of "ms @ out"] IH [of out] Inr
        by (simp add: ToolMessage split: sum.splits)
    qed
  qed
qed

lemma convert_loop_append:
  "convert_loop js ms (xs @ ys) =
     (case convert_loop js ms xs of Inl e \<Rightarrow> Inl e | Inr ms' \<Rightarrow> convert_loop js ms' ys)"
  by (induction js ms xs rule: convert_loop.induct) (auto split: sum.splits)

lemma convert_context:
  assumes "convertToOllamaChatMessages js pre = Inr a"
    and "convertToOllamaChatMessages js post = Inr b"
    and "\<And>ms. convert_loop js ms (m # post) = convert_loop js (ms @ out) post"
  shows "convertToOllamaChatMessages js (pre @ m # post) = Inr (a @ out @ b)"
proof -
  have "convert_loop js [] (pre @ m # post) = convert_loop js a (m # post)"
    using assms(1) by (simp add: convert_loop_append convertToOllamaChatMessages_def)
  also have "\<dots> = convert_loop js (a @ out) post" by (rule assms(3))
  also have "\<dots> = Inr ((a @ out) @ b)"
    using assms(2) by (subst convert_loop_prefix) (simp add: convertToOllamaChatMessages_def)
  finally show ?thesis by (simp add: convertToOllamaChatMessages_def)
qed

text \<open>C7, amended. For every prompt that contains a user message with an image part whose
  image is a URL, \<open>convertToOllamaChatMessages\<close> produces no output. It fails with the
  unsupported-functionality error \<open>image-part\<close> when the messages before that user message
  are mapped, and with the error of the messages before it when they are not (a tool
  result on which the engine throws).\<close>

theorem url_image_fails:
  assumes "ImagePart (URL u) mime \<in> set parts"
  shows "convertToOllamaChatMessages js (pre @ UserMessage parts # post) =
       (case convertToOllamaChatMessages js pre of
          Inl e \<Rightarrow> Inl e
        | Inr a \<Rightarrow> Inl (UnsupportedFunctionalityError ''image-part''))
     \<and> isl (convertToOllamaChatMessages js (pre @ UserMessage parts # post))"
proof -
  have u: "\<And>ms. convert_loop js ms (UserMessage parts # post) =
      Inl (UnsupportedFunctionalityError ''image-part'')"
    using reduce_user_url [OF assms, of "([], None)"] by simp
  have eq: "convertToOllamaChatMessages js (pre @ UserMessage parts # post) =
       (case convertToOllamaChatMessages js pre of
          Inl e \<Rightarrow> Inl e
        | Inr a \<Rightarrow> Inl (UnsupportedFunctionalityError ''image-part''))"
    by (simp add: convertToOllamaChatMessages_def convert_loop_append u
          del: convert_loop.simps split: sum.splits)
  then have "isl (convertToOllamaChatMessages js (pre @ UserMessage parts # post))"
    by (simp split: sum.splits)
  with eq show ?thesis by blast
qed

lemma reduce_user_ok:
  "\<forall>p \<in> set parts. \<not> is_url_image p \<Longrightarrow>
   reduce user_callback parts (c, imgs) =
     Inr (c @ concat (map text_of parts),
          if filter is_image parts = [] then imgs
          else Some ((case imgs of None \<Rightarrow> [] | Some xs \<Rightarrow> xs) @ List.map_filter base64_of parts))"
proof (induction parts arbitrary: c imgs)
  case Nil
  show ?case by simp
next
  case (Cons p ps)
  have ps: "\<forall>p \<in> set ps. \<not> is_url_image p" and p: "\<not> is_url_image p"
    using Cons.prems by simp_all
  show ?case
  proof (cases "((c, imgs), p)" rule: user_callback.cases)
    case (1 c' imgs' t)
    then show ?thesis using Cons.IH [OF ps] by (simp add: List.map_filter_simps)
  next
    case (2 c' imgs' u mime)
    then show ?thesis using p by simp
  next
    case (3 c' imgs' bytes mime)
    have nil: "filter is_image ps = [] \<Longrightarrow> List.map_filter base64_of ps = []"
      using ps
    proof (induction ps)
      case Nil
      show ?case by (simp add: List.map_filter_simps)
    next
      case (Cons q qs)
      then show ?case by (cases q rule: is_image.cases) (auto simp: List.map_filter_simps)
    qed
    show ?thesis using 3 Cons.IH [OF ps] nil by (simp add: List.map_filter_simps)
  qed
qed

text \<open>C8. A user message whose parts are text parts and binary image parts only is mapped to
  exactly one message of role \<open>user\<close>: its content is the concatenation of the text
  parts from left to right, its images are absent when the message has no image part and
  are otherwise the base64 encodings of the binary image parts in order. This holds
  wherever the message stands in a prompt whose other messages are mapped.\<close>

theorem user_message_folded:
  assumes "\<forall>p \<in> set parts. \<not> is_url_image p"
    and "convertToOllamaChatMessages js pre = Inr a"
    and "convertToOllamaChatMessages js post = Inr b"
  shows "convertToOllamaChatMessages js (pre @ UserMessage parts # post) =
     Inr (a @ [\<lparr>content = concat (map text_of parts),
                images = (if filter is_image parts = [] then None
                          else Some (List.map_filter base64_of parts)),
                role = RoleUser, tool_call_id = None\<rparr>] @ b)"
proof (rule convert_context [OF assms(2,3)])
  fix ms
  show "convert_loop js ms (UserMessage parts # post) =
     convert_loop js (ms @ [\<lparr>content = concat (map text_of parts),
                images = (if filter is_image parts = [] then None
                          else Some (List.map_filter base64_of parts)),
                role = RoleUser, tool_call_id = None\<rparr>]) post"
    using reduce_user_ok [OF assms(1), of "[]" None] by simp
qed







section \<open>The chat language model: properties\<close>

text \<open>\<open>getArguments\<close> maps the messages before it looks at the mode, so the error of the
  mapper comes first.\<close>

lemma getArguments_tool:
  "mode opts = ObjectTool t \<Longrightarrow>
     getArguments js this opts =
       Inl (case convertToOllamaChatMessages js (prompt opts) of
              Inl e \<Rightarrow> e
            | Inr ms \<Rightarrow> UnsupportedFunctionalityError ''object-tool mode'')"
  by (simp add: getArguments_def Let_def split: sum.splits)

lemma getArguments_grammar:
  "mode opts = ObjectGrammar g \<Longrightarrow>
     getArguments js this opts =
       Inl (case convertToOllamaChatMessages js (prompt opts) of
              Inl e \<Rightarrow> e
            | Inr ms \<Rightarrow> UnsupportedFunctionalityError ''object-grammar mode'')"
  by (simp add: getArguments_def Let_def split: sum.splits)

lemma getArguments_json:
  "mode opts = ObjectJson \<Longrightarrow> \<not> isl (convertToOllamaChatMessages js (prompt opts)) \<Longrightarrow>
     \<exists>args. getArguments js this opts = Inr (args, []) \<and> format args = Some ''json''"
  by (auto simp: getArguments_def Let_def split: sum.splits)

lemma doGenerate_requests:
  "getArguments js this opts = Inr (args, warns) \<Longrightarrow>
     map body (snd (doGenerate js this fetch opts)) = [args]"
  by (auto simp: doGenerate_def Let_def split: sum.splits prod.splits)

lemma doStream_requests:
  "getArguments js this opts = Inr (args, warns) \<Longrightarrow>
     map body (snd (doStream js this fetch opts)) = [args]"
  by (auto simp: doStream_def Let_def split: sum.splits prod.splits)

text \<open>C6, amended. When the mode is \<open>object-tool\<close> or \<open>object-grammar\<close>, \<open>doGenerate\<close> and
  \<open>doStream\<close> both fail and dispatch no request. The error is the unsupported-functionality
  error that names the mode (\<open>object-tool mode\<close>, \<open>object-grammar mode\<close>) when the
  messages of the prompt are mapped, and is the error of the mapper when they are not
  (\<open>image-part\<close> for an image part given by a URL, what the engine throws on a tool
  result). In the mode \<open>object-json\<close>, when the messages of the prompt are mapped,
  \<open>getArguments\<close> succeeds with \<open>format = json\<close>, and the one request that each entry
  point dispatches carries it.\<close>

theorem unsupported_modes_rejected:
  "(mode opts = ObjectTool t \<longrightarrow>
      doGenerate js this fetchG opts =
        (Inl (case convertToOllamaChatMessages js (prompt opts) of
                Inl e \<Rightarrow> e
              | Inr ms \<Rightarrow> UnsupportedFunctionalityError ''object-tool mode''), [])
      \<and> doStream js this fetchS opts =
        (Inl (case convertToOllamaChatMessages js (prompt opts) of
                Inl e \<Rightarrow> e
              | Inr ms \<Rightarrow> UnsupportedFunctionalityError ''object-tool mode''), []))
   \<and> (mode opts = ObjectGrammar g \<longrightarrow>
      doGenerate js this fetchG opts =
        (Inl (case convertToOllamaChatMessages js (prompt opts) of
                Inl e \<Rightarrow> e
              | Inr ms \<Rightarrow> UnsupportedFunctionalityError ''object-grammar mode''), [])
      \<and> doStream js this fetchS opts =
        (Inl (case convertToOllamaChatMessages js (prompt opts) of
                Inl e \<Rightarrow> e
              | Inr ms \<Rightarrow> UnsupportedFunctionalityError ''object-grammar mode''), []))
   \<and> (mode opts = ObjectJson \<and> \<not> isl (convertToOllamaChatMessages js (prompt opts)) \<longrightarrow>
      (\<exists>args. getArguments js this opts = Inr (args, []) \<and> format args = Some ''json'')
      \<and> map (format \<circ> body) (snd (doGenerate js this fetchG opts)) = [Some ''json'']
      \<and> map (format \<circ> body) (snd (doStream js this fetchS opts)) = [Some ''json''])"
proof (intro conjI impI)
  assume m: "mode opts = ObjectTool t"
  show "doGenerate js this fetchG opts =
        (Inl (case convertToOllamaChatMessages js (prompt opts) of
                Inl e \<Rightarrow> e
              | Inr ms \<Rightarrow> UnsupportedFunctionalityError ''object-tool mode''), [])"
    by (simp add: doGenerate_def getArguments_tool [OF m])
  show "doStream js this fetchS opts =
        (Inl (case convertToOllamaChatMessages js (prompt opts) of
                Inl e \<Rightarrow> e
              | Inr ms \<Rightarrow> UnsupportedFunctionalityError ''object-tool mode''), [])"
    by (simp add: doStream_def getArguments_tool [OF m])
next
  assume m: "mode opts = ObjectGrammar g"
  show "doGenerate js this fetchG opts =
        (Inl (case convertToOllamaChatMessages js (prompt opts) of
                Inl e \<Rightarrow> e
              | Inr ms \<Rightarrow> UnsupportedFunctionalityError ''object-grammar mode''), [])"
    by (simp add: doGenerate_def getArguments_grammar [OF m])
  show "doStream js this fetchS opts =
        (Inl (case convertToOllamaChatMessages js (prompt opts) of
                Inl e \<Rightarrow> e
              | Inr ms \<Rightarrow> UnsupportedFunctionalityError ''object-grammar mode''), [])"
    by (simp add: doStream_def getArguments_grammar [OF m])
next
  assume "mode opts = ObjectJson \<and> \<not> isl (convertToOllamaChatMessages js (prompt opts))"
  then obtain args where a: "getArguments js this opts = Inr (args, [])"
    and f: "format args = Some ''json''"
    using getArguments_json by blast
  show "\<exists>args. getArguments js this opts = Inr (args, []) \<and> format args = Some ''json''"
    using a f by blast
  have "map (format \<circ> body) (snd (doGenerate js this fetchG opts)) =
      map format (map body (snd (doGenerate js this fetchG opts)))" by simp
  then show "map (format \<circ> body) (snd (doGenerate js this fetchG opts)) = [Some ''json'']"
    by (simp only: doGenerate_requests [OF a]) (simp add: f)
  have "map (format \<circ> body) (snd (doStream js this fetchS opts)) =
      map format (map body (snd (doStream js this fetchS opts)))" by simp
  then show "map (format \<circ> body) (snd (doStream js this fetchS opts)) = [Some ''json'']"
    by (simp only: doStream_requests [OF a]) (simp add: f)
qed

text \<open>What \<open>doGenerate\<close> returns once its request has been answered.\<close>

lemma doGenerate_dispatched:
  assumes "snd (doGenerate js this fetch opts) = [req]"
    and "fetch req = Inr (responseHeaders, raw)"
  shows "fst (doGenerate js this fetch opts) =
     (case ollamaChatChunkSchema raw of
        None \<Rightarrow> Inl (APICallError ''Invalid JSON response'')
      | Some response \<Rightarrow>
          Inr \<lparr>rawCall = \<lparr>rawPrompt = messages (body req),
                           rawSettings = raw_settings.truncate (body req)\<rparr>,
               rawResponse = responseHeaders,
               warnings = [],
               result_finishReason = Stop,
               result_text = message_content (message response),
               result_usage =
                 \<lparr>completionTokens = NaN,
                  promptTokens = or_else (prompt_eval_count response) NaN\<rparr>\<rparr>)"
proof (cases "getArguments js this opts")
  case (Inl e)
  then show ?thesis using assms(1) by (simp add: doGenerate_def)
next
  case (Inr p)
  obtain args warns where p: "p = (args, warns)" by (cases p)
  have w: "warns = []" using Inr p
    by (auto simp: getArguments_def Let_def split: sum.splits mode.splits)
  let ?req = "\<lparr>url = baseURL (config this) @ ''/chat'',
                      request_headers = headers (config this),
                      body = args, stream_flag = Some False\<rparr>"
  have "snd (doGenerate js this fetch opts) = [?req]"
    using Inr p by (simp add: doGenerate_def Let_def split: sum.splits prod.splits)
  then have r: "req = ?req" using assms(1) by simp
  have f: "fetch ?req = Inr (responseHeaders, raw)" using assms(2) r by simp
  show ?thesis
    using Inr p w f
    by (simp add: doGenerate_def Let_def postJsonToApi_def createJsonResponseHandler_def r
             split: option.splits)
qed

lemma or_else_NaN:
  "or_else c NaN = (case c of None \<Rightarrow> NaN | Some n \<Rightarrow> if n = Num 0 then NaN else n)"
  by (cases c; cases "the c") (auto split: option.splits)

text \<open>C4, amended. For every response body that \<open>ollamaChatChunkSchema\<close> accepts,
  \<open>doGenerate\<close> returns the usage with \<open>completionTokens = NaN\<close> and with
  \<open>promptTokens\<close> equal to the record's \<open>prompt_eval_count\<close> when that field is present
  and not zero, and \<open>NaN\<close> when it is absent or zero.\<close>

theorem doGenerate_usage:
  assumes "snd (doGenerate js this fetch opts) = [req]"
    and "fetch req = Inr (responseHeaders, raw)"
    and "ollamaChatChunkSchema raw = Some response"
  shows "map_sum id result_usage (fst (doGenerate js this fetch opts)) =
     Inr \<lparr>completionTokens = NaN,
          promptTokens = (case prompt_eval_count response of
                            None \<Rightarrow> NaN
                          | Some n \<Rightarrow> if n = Num 0 then NaN else n)\<rparr>"
  using doGenerate_dispatched [OF assms(1,2)] assms(3) by (simp add: or_else_NaN)

text \<open>A body without a \<open>message\<close> property is rejected by the schema.\<close>

lemma schema_needs_message:
  "property raw ''message'' = JUndefined \<Longrightarrow> ollamaChatChunkSchema raw = None"
  by (simp add: ollamaChatChunkSchema_def message_schema_def split: Option.bind_splits)

section \<open>The properties at the fixtures\<close>

lemmas fixture_defs = TEST_PROMPT_def test_model_def test_options_def JsonTestServer_def
  StreamingTestServer_def prepareJsonResponse_def chat_response_def delta_def final_def
  test_engine_def url_image_prompt_def cyclic_tool_message_def

lemmas run_defs = doGenerate_def doStream_def getArguments_def convertToOllamaChatMessages_def
  postJsonToApi_def createJsonResponseHandler_def ollamaChatChunkSchema_def message_schema_def
  tool_callback_def doStream_stream_def flush_def initial_closure_def mapOllamaFinishReason_def
  Let_def

text \<open>Two fragments around a decode failure, and no terminal record.\<close>

theorem doStream_one_finish_last_witness:
  "map is_terminal [delta ''Hello'', Failure (JSONParseError ''Unexpected token''), delta '', ''] =
     [False, False, False]
   \<and> map_sum id stream
       (fst (doStream test_engine test_model
              (StreamingTestServer
                 [delta ''Hello'', Failure (JSONParseError ''Unexpected token''), delta '', ''])
              (test_options (Regular JUndefined) TEST_PROMPT))) =
     Inr [TextDelta ''Hello'', ErrorPart (JSONParseError ''Unexpected token''), TextDelta '', '',
          Finish Other \<lparr>completionTokens = NaN, promptTokens = NaN\<rparr>]"
proof -
  let ?chunks = "[delta ''Hello'', Failure (JSONParseError ''Unexpected token''), delta '', '']"
  let ?fetch = "StreamingTestServer ?chunks"
  let ?opts = "test_options (Regular JUndefined) TEST_PROMPT"
  let ?req = "hd (snd (doStream test_engine test_model ?fetch ?opts))"
  have a: "snd (doStream test_engine test_model ?fetch ?opts) = [?req]"
    by (simp add: fixture_defs run_defs)
  have b: "?fetch ?req = Inr ([(''content-type'', ''text/event-stream'')], ?chunks)"
    by (simp add: StreamingTestServer_def)
  show ?thesis
    using doStream_one_finish_last [OF a b] by (simp add: fixture_defs run_defs)
qed

text \<open>The fragments \<open>Hello\<close>, \<open>, \<close>, \<open>World!\<close> and a terminal record with
  \<open>eval_count = 290\<close> and \<open>prompt_eval_count = 26\<close>.\<close>

theorem doStream_terminal_record_witness:
  "map_sum id stream
     (fst (doStream test_engine test_model
            (StreamingTestServer
               ([delta ''Hello'', delta '', '', delta ''World!''] @ final 290 26 # []))
            (test_options (Regular JUndefined) TEST_PROMPT))) =
   Inr [TextDelta ''Hello'', TextDelta '', '', TextDelta ''World!'',
        Finish Stop \<lparr>completionTokens = Num 290, promptTokens = NaN\<rparr>]"
proof -
  let ?pre = "[delta ''Hello'', delta '', '', delta ''World!'']"
  let ?fetch = "StreamingTestServer (?pre @ final 290 26 # [])"
  let ?opts = "test_options (Regular JUndefined) TEST_PROMPT"
  let ?req = "hd (snd (doStream test_engine test_model ?fetch ?opts))"
  have a: "snd (doStream test_engine test_model ?fetch ?opts) = [?req]"
    by (simp add: fixture_defs run_defs)
  have b: "?fetch ?req =
      Inr ([(''content-type'', ''text/event-stream'')],
           ?pre @ Success (IsDone ''2024-05-04T01:59:32.137913Z'' (Num 290) (Num 60669000)
                (Some (Num 5921416)) ''llama3'' (Some (Num 26))
                (Some (Num 1750224000)) (Num 1820013000)) # [])"
    by (simp add: StreamingTestServer_def final_def)
  show ?thesis
    using doStream_terminal_record [OF a b, of initial_closure]
    by (simp add: fixture_defs run_defs)
qed

text \<open>A decode failure between two fragments, before the terminal record.\<close>

theorem doStream_decode_failure_witness:
  "map_sum id stream
     (fst (doStream test_engine test_model
            (StreamingTestServer
               ([delta ''Hello''] @ Failure (TypeValidationError ''Invalid input'')
                # [delta ''World!'', final 7 3]))
            (test_options (Regular JUndefined) TEST_PROMPT))) =
   Inr [TextDelta ''Hello'', ErrorPart (TypeValidationError ''Invalid input''),
        TextDelta ''World!'', Finish Stop \<lparr>completionTokens = Num 7, promptTokens = NaN\<rparr>]
   \<and> map_sum id stream
     (fst (doStream test_engine test_model
            (StreamingTestServer ([delta ''Hello''] @ [delta ''World!'', final 7 3]))
            (test_options (Regular JUndefined) TEST_PROMPT))) =
   Inr [TextDelta ''Hello'', TextDelta ''World!'',
        Finish Stop \<lparr>completionTokens = Num 7, promptTokens = NaN\<rparr>]"
proof -
  let ?pre = "[delta ''Hello'']"
  let ?post = "[delta ''World!'', final 7 3]"
  let ?err = "TypeValidationError ''Invalid input''"
  let ?fetch = "StreamingTestServer (?pre @ Failure ?err # ?post)"
  let ?fetch' = "StreamingTestServer (?pre @ ?post)"
  let ?opts = "test_options (Regular JUndefined) TEST_PROMPT"
  let ?req = "hd (snd (doStream test_engine test_model ?fetch ?opts))"
  let ?req' = "hd (snd (doStream test_engine test_model ?fetch' ?opts))"
  have a: "snd (doStream test_engine test_model ?fetch ?opts) = [?req]"
    by (simp add: fixture_defs run_defs)
  have b: "?fetch ?req =
      Inr ([(''content-type'', ''text/event-stream'')], ?pre @ Failure ?err # ?post)"
    by (simp add: StreamingTestServer_def)
  have a': "snd (doStream test_engine test_model ?fetch' ?opts) = [?req']"
    by (simp add: fixture_defs run_defs)
  have b': "?fetch' ?req' = Inr ([(''content-type'', ''text/event-stream'')], ?pre @ ?post)"
    by (simp add: StreamingTestServer_def)
  show ?thesis
    using doStream_decode_failure [OF a b a' b', of initial_closure]
    by (simp add: fixture_defs run_defs)
qed

text \<open>A line whose fragment is the empty string, between two fragments.\<close>

theorem doStream_text_delta_witness:
  "map_option Success (ollamaChatStreamChunkSchema empty_delta_line) = Some (delta [])
   \<and> map_sum id stream
     (fst (doStream test_engine test_model
            (StreamingTestServer ([delta ''Hello''] @ delta [] # [delta ''World!'']))
            (test_options (Regular JUndefined) TEST_PROMPT))) =
   Inr [TextDelta ''Hello'', TextDelta [], TextDelta ''World!'',
        Finish Other \<lparr>completionTokens = NaN, promptTokens = NaN\<rparr>]"
proof -
  let ?pre = "[delta ''Hello'']"
  let ?post = "[delta ''World!'']"
  let ?fetch = "StreamingTestServer (?pre @ delta [] # ?post)"
  let ?opts = "test_options (Regular JUndefined) TEST_PROMPT"
  let ?req = "hd (snd (doStream test_engine test_model ?fetch ?opts))"
  have a: "snd (doStream test_engine test_model ?fetch ?opts) = [?req]"
    by (simp add: fixture_defs run_defs)
  have b: "?fetch ?req =
      Inr ([(''content-type'', ''text/event-stream'')],
           ?pre @ Success (NotDone ''2024-05-04T01:59:32.077465Z''
                    (ResponseMessage [] ''assistant'') ''llama3'') # ?post)"
    by (simp add: StreamingTestServer_def delta_def)
  have c: "map_option Success (ollamaChatStreamChunkSchema empty_delta_line) = Some (delta [])"
    by (simp add: empty_delta_line_def delta_def ollamaChatStreamChunkSchema_def
          message_schema_def)
  show ?thesis
    using doStream_text_delta [OF a b, of initial_closure empty_delta_line] c
    by (simp add: fixture_defs run_defs)
qed

text \<open>A response whose \<open>prompt_eval_count\<close> is present and zero: \<open>promptTokens\<close> is \<open>NaN\<close>,
  not zero.\<close>

theorem doGenerate_prompt_zero_counterexample:
  "map_option prompt_eval_count (ollamaChatChunkSchema (chat_response ''Hello, World!'' 20 0)) =
     Some (Some (Num 0))
   \<and> map_sum id (promptTokens \<circ> result_usage)
       (fst (doGenerate test_engine test_model
              (JsonTestServer (chat_response ''Hello, World!'' 20 0))
              (test_options (Regular JUndefined) TEST_PROMPT))) = Inr NaN
   \<and> map_sum id (promptTokens \<circ> result_usage)
       (fst (doGenerate test_engine test_model
              (JsonTestServer (chat_response ''Hello, World!'' 20 0))
              (test_options (Regular JUndefined) TEST_PROMPT))) \<noteq> Inr (Num 0)"
  by (simp add: fixture_defs run_defs)

text \<open>A response with \<open>eval_count = 20\<close> and \<open>prompt_eval_count = 25\<close>.\<close>

theorem doGenerate_usage_witness:
  "map_sum id result_usage
     (fst (doGenerate test_engine test_model
            (JsonTestServer (chat_response ''Hello, World!'' 20 25))
            (test_options (Regular JUndefined) TEST_PROMPT))) =
   Inr \<lparr>completionTokens = NaN, promptTokens = Num 25\<rparr>"
proof -
  let ?fetch = "JsonTestServer (chat_response ''Hello, World!'' 20 25)"
  let ?opts = "test_options (Regular JUndefined) TEST_PROMPT"
  let ?req = "hd (snd (doGenerate test_engine test_model ?fetch ?opts))"
  have a: "snd (doGenerate test_engine test_model ?fetch ?opts) = [?req]"
    by (simp add: fixture_defs run_defs)
  have b: "?fetch ?req =
      Inr ([(''content-type'', ''application/json'')], chat_response ''Hello, World!'' 20 25)"
    by (simp add: JsonTestServer_def)
  have c: "ollamaChatChunkSchema (chat_response ''Hello, World!'' 20 25) =
      Some \<lparr>created_at = ''2024-05-04T01:59:32.137913Z'', eval_count = Num 20,
            eval_duration = Num 60669000, load_duration = Some (Num 5921416),
            message = ResponseMessage ''Hello, World!'' ''assistant'',
            response_model = ''llama3'', prompt_eval_count = Some (Num 25),
            prompt_eval_duration = Some (Num 1750224000),
            total_duration = Num 1820013000\<rparr>"
    by (simp add: chat_response_def ollamaChatChunkSchema_def message_schema_def)
  show ?thesis using doGenerate_usage [OF a b c] by simp
qed

text \<open>C5. The body that the repository's test of \<open>doGenerate\<close> prepares has its text in a
  top-level \<open>response\<close> property and no \<open>message\<close>. The test expects the text
  \<open>Hello, World!\<close>; \<open>ollamaChatChunkSchema\<close> rejects the body, and \<open>doGenerate\<close> throws an
  API call error and returns no text.\<close>

theorem doGenerate_test_body_fails:
  "ollamaChatChunkSchema (prepareJsonResponse ''Hello, World!'' 20 25) = None
   \<and> map_sum id result_text
       (fst (doGenerate test_engine test_model
              (JsonTestServer (prepareJsonResponse ''Hello, World!'' 20 25))
              (test_options (Regular JUndefined) TEST_PROMPT))) =
       Inl (APICallError ''Invalid JSON response'')
   \<and> map_sum id result_text
       (fst (doGenerate test_engine test_model
              (JsonTestServer (prepareJsonResponse ''Hello, World!'' 20 25))
              (test_options (Regular JUndefined) TEST_PROMPT))) \<noteq> Inr ''Hello, World!''"
  by (simp add: fixture_defs run_defs)

text \<open>With an image part given by a URL in the prompt, the error in the mode \<open>object-tool\<close>
  names \<open>image-part\<close>, not the mode, and argument building fails in the mode
  \<open>object-json\<close>.\<close>

theorem mode_error_counterexample:
  "mode (test_options (ObjectTool JNull) url_image_prompt) = ObjectTool JNull
   \<and> fst (doGenerate test_engine test_model (JsonTestServer JNull)
            (test_options (ObjectTool JNull) url_image_prompt)) =
       Inl (UnsupportedFunctionalityError ''image-part'')
   \<and> fst (doStream test_engine test_model (StreamingTestServer [])
            (test_options (ObjectTool JNull) url_image_prompt)) =
       Inl (UnsupportedFunctionalityError ''image-part'')
   \<and> fst (doGenerate test_engine test_model (JsonTestServer JNull)
            (test_options (ObjectTool JNull) url_image_prompt)) \<noteq>
       Inl (UnsupportedFunctionalityError ''object-tool mode'')
   \<and> getArguments test_engine test_model (test_options ObjectJson url_image_prompt) =
       Inl (UnsupportedFunctionalityError ''image-part'')"
  by (simp add: fixture_defs run_defs)

text \<open>The three modes on the prompt of the tests, and the mode \<open>object-tool\<close> on a prompt
  with a tool result on which the engine throws.\<close>

theorem unsupported_modes_rejected_witness:
  "doGenerate test_engine test_model (JsonTestServer JNull)
     (test_options (ObjectTool JNull) TEST_PROMPT) =
     (Inl (UnsupportedFunctionalityError ''object-tool mode''), [])
   \<and> doStream test_engine test_model (StreamingTestServer [])
     (test_options (ObjectTool JNull) TEST_PROMPT) =
     (Inl (UnsupportedFunctionalityError ''object-tool mode''), [])
   \<and> doGenerate test_engine test_model (JsonTestServer JNull)
     (test_options (ObjectGrammar JNull) TEST_PROMPT) =
     (Inl (UnsupportedFunctionalityError ''object-grammar mode''), [])
   \<and> doStream test_engine test_model (StreamingTestServer [])
     (test_options (ObjectGrammar JNull) TEST_PROMPT) =
     (Inl (UnsupportedFunctionalityError ''object-grammar mode''), [])
   \<and> doGenerate test_engine test_model (JsonTestServer JNull)
     (test_options (ObjectTool JNull) [cyclic_tool_message]) = (Inl TypeError, [])
   \<and> map (format \<circ> body)
       (snd (doGenerate test_engine test_model (JsonTestServer JNull)
              (test_options ObjectJson TEST_PROMPT))) = [Some ''json'']
   \<and> map (format \<circ> body)
       (snd (doStream test_engine test_model (StreamingTestServer [])
              (test_options ObjectJson TEST_PROMPT))) = [Some ''json'']"
  using
    unsupported_modes_rejected [where opts = "test_options (ObjectTool JNull) TEST_PROMPT"
      and t = JNull and js = test_engine and this = test_model
      and fetchG = "JsonTestServer JNull" and fetchS = "StreamingTestServer []"]
    unsupported_modes_rejected [where opts = "test_options (ObjectGrammar JNull) TEST_PROMPT"
      and g = JNull and js = test_engine and this = test_model
      and fetchG = "JsonTestServer JNull" and fetchS = "StreamingTestServer []"]
    unsupported_modes_rejected [where opts = "test_options (ObjectTool JNull) [cyclic_tool_message]"
      and t = JNull and js = test_engine and this = test_model
      and fetchG = "JsonTestServer JNull" and fetchS = "StreamingTestServer []"]
    unsupported_modes_rejected [where opts = "test_options ObjectJson TEST_PROMPT"
      and js = test_engine and this = test_model
      and fetchG = "JsonTestServer JNull" and fetchS = "StreamingTestServer []"]
  by (simp add: fixture_defs convertToOllamaChatMessages_def tool_callback_def)

text \<open>A tool message whose result is the cyclic object, before the user message with the
  URL image: the error is the \<open>TypeError\<close> of the engine, not \<open>image-part\<close>.\<close>

theorem url_image_after_cyclic_counterexample:
  "convertToOllamaChatMessages test_engine (cyclic_tool_message # url_image_prompt) =
     Inl TypeError
   \<and> convertToOllamaChatMessages test_engine (cyclic_tool_message # url_image_prompt) \<noteq>
     Inl (UnsupportedFunctionalityError ''image-part'')"
  by (simp add: fixture_defs run_defs)

text \<open>A user message with a URL image between two text parts, after a system message; and
  the same after the tool message with the cyclic object.\<close>

theorem url_image_fails_witness:
  "convertToOllamaChatMessages test_engine
     ([SystemMessage ''You are helpful'']
      @ UserMessage [TextPart ''Describe this'',
                     ImagePart (URL ''https://example.com/image.png'') (Some ''image/png''),
                     TextPart ''please''] # []) =
   Inl (UnsupportedFunctionalityError ''image-part'')
   \<and> convertToOllamaChatMessages test_engine
     ([cyclic_tool_message]
      @ UserMessage [TextPart ''Describe this'',
                     ImagePart (URL ''https://example.com/image.png'') (Some ''image/png''),
                     TextPart ''please''] # []) =
   Inl TypeError"
  using
    url_image_fails [where parts = "[TextPart ''Describe this'',
                     ImagePart (URL ''https://example.com/image.png'') (Some ''image/png''),
                     TextPart ''please'']" and u = "''https://example.com/image.png''"
        and mime = "Some ''image/png''" and js = test_engine
        and pre = "[SystemMessage ''You are helpful'']" and post = "[]"]
    url_image_fails [where parts = "[TextPart ''Describe this'',
                     ImagePart (URL ''https://example.com/image.png'') (Some ''image/png''),
                     TextPart ''please'']" and u = "''https://example.com/image.png''"
        and mime = "Some ''image/png''" and js = test_engine
        and pre = "[cyclic_tool_message]" and post = "[]"]
  by (simp add: fixture_defs convertToOllamaChatMessages_def tool_callback_def)

text \<open>A user message with one binary image part and one text part, after a system message.\<close>

theorem user_message_folded_witness:
  "convertToOllamaChatMessages test_engine
     ([SystemMessage ''You are helpful'']
      @ UserMessage [ImagePart (Uint8Array [0, 1, 2, 3]) (Some ''image/png''), TextPart ''Hello'']
      # []) =
   Inr [\<lparr>content = ''You are helpful'', images = None, role = RoleSystem, tool_call_id = None\<rparr>,
        \<lparr>content = ''Hello'', images = Some [''AAECAw==''], role = RoleUser,
         tool_call_id = None\<rparr>]"
  using user_message_folded [where js = test_engine and
      parts = "[ImagePart (Uint8Array [0, 1, 2, 3]) (Some ''image/png''), TextPart ''Hello'']"
      and pre = "[SystemMessage ''You are helpful'']"
      and a = "[\<lparr>content = ''You are helpful'', images = None, role = RoleSystem,
                 tool_call_id = None\<rparr>]"
      and post = "[]" and b = "[]"]
  by (simp add: convertToOllamaChatMessages_def injectToolsSchemaIntoSystem_def
        convertUint8ArrayToBase64_def base64_alphabet_def)



end
